theory Spec2Isabelle
  imports Main "HOL-Library.Sublist"
begin

section \<open>bubblechat: the chat client's update loop\<close>

text \<open>
  The program is one Bubble Tea model (\<open>src/main.go\<close>, the current version with the header
  status line): a struct \<open>model\<close>, its \<open>Update\<close> method, the commands \<open>GetResponseCmd\<close> and
  \<open>GetStatusCmd\<close>, and the package-level conversation history \<open>chatMessages\<close>.
  Strings are Go strings: byte lists. Go \<open>error\<close> values are \<open>error option\<close>, \<open>None\<close>
  being \<open>nil\<close>. A Go panic is the value \<open>Inl Panic\<close>.

  Not modelled: the \<open>log.Printf\<close> lines, \<open>fmt.Println\<close> on quit and the
  \<open>time.Sleep\<close> calls of the tick branch; none of them touches the model struct.
\<close>

subsection \<open>Messages and commands\<close>

datatype error = Error string

datatype failure = Panic | Blocked

text \<open>
  The messages \<open>Update\<close> tells apart in its type switch. A key message is identified by
  \<open>msg.String()\<close>; a spinner tick carries the \<open>ID\<close> and the \<open>tag\<close> of the spinner that
  scheduled it; \<open>OtherMsg\<close> stands for every message type the switch has no case for
  (mouse, window size, cursor blink).
\<close>

datatype msg =
    KeyMsg string
  | TickMsg int int
  | ResponseMsg string "error option"
  | StatusMsg "error option"
  | ErrorMsg error
  | OtherMsg nat

text \<open>Commands the component libraries hand back; the program only passes them on.\<close>

datatype libcmd = Blink | SpinnerTick int int | OpaqueCmd nat

datatype cmd = Quit | Lib libcmd | GetResponseCmd string | GetStatusCmd

text \<open>\<open>tea.Batch\<close>: the commands that are not \<open>nil\<close>, in order; \<open>[]\<close> is the \<open>nil\<close> command.\<close>

fun Batch :: "cmd option list \<Rightarrow> cmd list" where
  "Batch [] = []"
| "Batch (None # cs) = Batch cs"
| "Batch (Some c # cs) = c # Batch cs"

definition libcmd_of :: "libcmd option \<Rightarrow> cmd option" where
  "libcmd_of c = map_option Lib c"

subsection \<open>Constants\<close>

definition promptColor :: string where "promptColor = ''#cda9d6''"
definition promptTextColor :: string where "promptTextColor = ''#fcfcfc''"
definition promptPrefix :: string where "promptPrefix = ''> ''"
definition responseColor :: string where "responseColor = ''#b7e4cf''"
definition responseTextColor :: string where "responseTextColor = ''#e2cdb5''"
definition responsePrefix :: string where "responsePrefix = ''> ''"
definition viewportTextWidth :: int where "viewportTextWidth = 80"

datatype spinner_type = MiniDot | Line

definition spinnerType :: spinner_type where "spinnerType = MiniDot"
definition statusSpinnerType :: spinner_type where "statusSpinnerType = Line"

subsection \<open>The model struct\<close>

text \<open>A \<open>lipgloss.Style\<close> as \<open>StyleFromColor\<close> builds it: a foreground colour.\<close>

datatype style = Style string

definition StyleFromColor :: "string \<Rightarrow> style" where
  "StyleFromColor color = Style color"

text \<open>
  \<open>headerModel\<close>. The fields \<open>modelName\<close> and \<open>style\<close> are set once by \<open>NewHeader\<close> and
  only read by \<open>View\<close>; they are left out.
\<close>

record 'sp headerModel =
  statusSpinner :: 'sp
  requestDone :: bool
  requestSuccess :: bool

text \<open>
  \<open>model\<close>. The states of the text area, the viewport and the spinners belong to the
  component libraries and are type parameters. The \<open>renderer\<close> field is a pointer that is
  never reassigned; its \<open>Render\<close> method is a component operation below.
\<close>

record ('ta, 'vp, 'sp) model =
  header :: "'sp headerModel"
  viewport :: 'vp
  messages :: "string list"
  textarea :: 'ta
  promptStyle :: style
  promptTextStyle :: style
  responseStyle :: style
  responseTextStyle :: style
  spinner :: 'sp
  waiting :: bool
  err :: "error option"

subsection \<open>The component libraries\<close>

text \<open>
  The operations of bubbles' \<open>textarea\<close>, \<open>viewport\<close> and \<open>spinner\<close>, of lipgloss, glamour
  and reflow that the program calls. Their code is not part of the repository, so they
  are parameters: every definition below takes them as \<open>E\<close>, and a theorem holds for
  whatever they compute unless it states what it needs of them.
  \<open>spinner_New ty n\<close> is \<open>spinner.New(spinner.WithSpinner(ty))\<close> when it is the
  \<open>n\<close>-th spinner the process creates (the library numbers them).
  \<open>renderer_Render\<close> is the string \<open>m.renderer.Render\<close> returns; the program drops the
  error it returns with it.
\<close>

record ('ta, 'vp, 'sp) components =
  textarea_New :: 'ta
  textarea_Update :: "msg \<Rightarrow> 'ta \<Rightarrow> 'ta \<times> libcmd option"
  textarea_Value :: "'ta \<Rightarrow> string"
  textarea_Reset :: "'ta \<Rightarrow> 'ta"
  viewport_New :: 'vp
  viewport_Update :: "msg \<Rightarrow> 'vp \<Rightarrow> 'vp \<times> libcmd option"
  viewport_SetContent :: "string \<Rightarrow> 'vp \<Rightarrow> 'vp"
  viewport_GotoBottom :: "'vp \<Rightarrow> 'vp"
  spinner_New :: "spinner_type \<Rightarrow> nat \<Rightarrow> 'sp"
  spinner_Update :: "msg \<Rightarrow> 'sp \<Rightarrow> 'sp \<times> libcmd option"
  spinner_ID :: "'sp \<Rightarrow> int"
  spinner_View :: "'sp \<Rightarrow> string"
  spinner_Tick :: "'sp \<Rightarrow> libcmd"
  style_Render :: "style \<Rightarrow> string \<Rightarrow> string"
  renderer_Render :: "string \<Rightarrow> string"
  wordwrap_String :: "string \<Rightarrow> int \<Rightarrow> string"

subsection \<open>Go's \<open>strings\<close> functions\<close>

text \<open>
  \<open>strings.TrimSpace\<close> removes leading and trailing white space as Unicode defines it.
  On bytes: the six ASCII space characters, and the UTF-8 encodings of the other code
  points \<open>unicode.IsSpace\<close> accepts (U+0085, U+00A0, U+1680, U+2000 to U+200A, U+2028,
  U+2029, U+202F, U+205F, U+3000).
\<close>

definition asciiSpace :: "char \<Rightarrow> bool" where
  "asciiSpace c \<longleftrightarrow> c \<in> set [CHR 0x09, CHR 0x0A, CHR 0x0B, CHR 0x0C, CHR 0x0D, CHR 0x20]"

definition unicodeSpaces :: "string list" where
  "unicodeSpaces =
    [[CHR 0xC2, CHR 0x85], [CHR 0xC2, CHR 0xA0], [CHR 0xE1, CHR 0x9A, CHR 0x80]] @
    map (\<lambda>b. [CHR 0xE2, CHR 0x80, b])
      [CHR 0x80, CHR 0x81, CHR 0x82, CHR 0x83, CHR 0x84, CHR 0x85, CHR 0x86, CHR 0x87,
       CHR 0x88, CHR 0x89, CHR 0x8A, CHR 0xA8, CHR 0xA9, CHR 0xAF] @
    [[CHR 0xE2, CHR 0x81, CHR 0x9F], [CHR 0xE3, CHR 0x80, CHR 0x80]]"

text \<open>The number of bytes of the white-space rune \<open>s\<close> starts with; 0 when it starts with none.\<close>

definition spaceWidth :: "string list \<Rightarrow> string \<Rightarrow> nat" where
  "spaceWidth encs s =
    (case s of
       [] \<Rightarrow> 0
     | c # _ \<Rightarrow>
         if asciiSpace c then 1
         else (case filter (\<lambda>e. prefix e s) encs of [] \<Rightarrow> 0 | e # _ \<Rightarrow> length e))"

function trimLeading :: "string list \<Rightarrow> string \<Rightarrow> string" where
  "trimLeading encs s =
    (if spaceWidth encs s = 0 then s else trimLeading encs (drop (spaceWidth encs s) s))"
  by pat_completeness auto
termination
proof (relation "measure (\<lambda>(encs, s). length s)")
  show "wf (measure (\<lambda>(encs, s). length s))" by simp
next
  fix encs :: "string list" and s :: string
  assume "spaceWidth encs s \<noteq> 0"
  then have "s \<noteq> []" by (auto simp: spaceWidth_def)
  with \<open>spaceWidth encs s \<noteq> 0\<close>
  show "((encs, drop (spaceWidth encs s) s), (encs, s)) \<in> measure (\<lambda>(encs, s). length s)"
    by simp
qed

declare trimLeading.simps [simp del]

definition TrimSpace :: "string \<Rightarrow> string" where
  "TrimSpace s =
    rev (trimLeading (map rev unicodeSpaces) (rev (trimLeading unicodeSpaces s)))"

text \<open>\<open>strings.Join\<close>.\<close>

fun Join :: "string list \<Rightarrow> string \<Rightarrow> string" where
  "Join [] sep = []"
| "Join [x] sep = x"
| "Join (x # y # ys) sep = x @ sep @ Join (y # ys) sep"

subsection \<open>Constructing the model\<close>

definition NewHeader :: "('ta, 'vp, 'sp) components \<Rightarrow> nat \<Rightarrow> 'sp headerModel" where
  "NewHeader E n =
    \<lparr> statusSpinner = spinner_New E statusSpinnerType n,
      requestDone = False,
      requestSuccess = False \<rparr>"

text \<open>
  \<open>initialModel\<close>. The struct literal evaluates \<open>NewHeader()\<close> before \<open>spinner.New\<close>, so
  the header's spinner is the first the process creates and the chat spinner the second.
\<close>

definition initialModel :: "('ta, 'vp, 'sp) components \<Rightarrow> ('ta, 'vp, 'sp) model" where
  "initialModel E =
    \<lparr> header = NewHeader E 1,
      viewport = viewport_New E,
      messages = [],
      textarea = textarea_New E,
      promptStyle = StyleFromColor promptColor,
      promptTextStyle = StyleFromColor promptTextColor,
      responseStyle = StyleFromColor responseColor,
      responseTextStyle = StyleFromColor responseTextColor,
      spinner = spinner_New E spinnerType 2,
      waiting = False,
      err = None \<rparr>"

definition Init :: "('ta, 'vp, 'sp) components \<Rightarrow> ('ta, 'vp, 'sp) model \<Rightarrow> cmd list" where
  "Init E m =
    Batch [Some (Lib Blink), Some GetStatusCmd,
           Some (Lib (spinner_Tick E (statusSpinner (header m))))]"

subsection \<open>\<open>UpdateViewport\<close>\<close>

text \<open>The left-to-right mark U+200E is the three bytes E2 80 8E.\<close>

definition UpdateViewport ::
  "('ta, 'vp, 'sp) components \<Rightarrow> ('ta, 'vp, 'sp) model \<Rightarrow> ('ta, 'vp, 'sp) model" where
  "UpdateViewport E m =
    (let toDisplay = Join (messages m) [CHR 0x0A] @ [CHR 0x0A, CHR 0xE2, CHR 0x80, CHR 0x8E];
         toDisplay = renderer_Render E (toDisplay @ [CHR 0x0A, CHR 0x20])
     in m\<lparr>viewport := viewport_SetContent E toDisplay (viewport m)\<rparr>)"

subsection \<open>\<open>Update\<close>\<close>

text \<open>
  \<open>Update\<close> first hands the message to the text area and the viewport, and to the chat
  spinner when \<open>waiting\<close> is set, then switches on the message's type. The two slice
  expressions \<open>m.messages[:len(m.messages)-1]\<close> panic on an empty slice.
\<close>

definition Update ::
  "('ta, 'vp, 'sp) components \<Rightarrow> ('ta, 'vp, 'sp) model \<Rightarrow> msg \<Rightarrow>
     failure + (('ta, 'vp, 'sp) model \<times> cmd list)" where
  "Update E m0 msg =
    (let (ta, textInputCmd) = textarea_Update E msg (textarea m0);
         (vp, viewportCmd) = viewport_Update E msg (viewport m0);
         (sp, spinnerCmd) =
           (if waiting m0 then spinner_Update E msg (spinner m0) else (spinner m0, None));
         m = m0\<lparr>textarea := ta, viewport := vp, spinner := sp\<rparr>
     in case msg of
          KeyMsg k \<Rightarrow>
            if k = ''ctrl+c'' \<or> k = ''q'' \<or> k = ''esc'' then Inr (m, [Quit])
            else if k = ''enter'' then
              let message = TrimSpace (textarea_Value E (textarea m));
                  message = wordwrap_String E message (viewportTextWidth - 3);
                  m = m\<lparr>messages := messages m @
                        [style_Render E (promptStyle m) promptPrefix @
                         style_Render E (promptTextStyle m) message]\<rparr>;
                  m = m\<lparr>messages := messages m @
                        [style_Render E (responseStyle m) responsePrefix @
                         spinner_View E (spinner m)]\<rparr>;
                  m = UpdateViewport E m;
                  m = m\<lparr>textarea := textarea_Reset E (textarea m)\<rparr>;
                  m = m\<lparr>viewport := viewport_GotoBottom E (viewport m)\<rparr>;
                  m = m\<lparr>waiting := True\<rparr>
              in Inr (m, Batch [Some (Lib (spinner_Tick E (spinner m))),
                                Some (GetResponseCmd message),
                                libcmd_of textInputCmd, libcmd_of viewportCmd])
            else Inr (m, Batch [libcmd_of textInputCmd, libcmd_of viewportCmd,
                                libcmd_of spinnerCmd])
        | TickMsg ID tag \<Rightarrow>
            if ID = spinner_ID E (spinner m) then
              if \<not> waiting m then Inr (m, [])
              else
                let m = m\<lparr>spinner := fst (spinner_Update E msg (spinner m))\<rparr>;
                    updatedMessage =
                      style_Render E (responseStyle m) responsePrefix @
                      spinner_View E (spinner m)
                in if messages m = [] then Inl Panic
                   else
                     let m = m\<lparr>messages := butlast (messages m) @ [updatedMessage]\<rparr>;
                         m = UpdateViewport E m;
                         m = m\<lparr>textarea := textarea_Reset E (textarea m)\<rparr>;
                         m = m\<lparr>viewport := viewport_GotoBottom E (viewport m)\<rparr>
                     in Inr (m, Batch [Some (Lib (spinner_Tick E (spinner m))),
                                       libcmd_of textInputCmd, libcmd_of viewportCmd])
            else if ID = spinner_ID E (statusSpinner (header m)) then
              if requestDone (header m) then Inr (m, [])
              else
                let m = m\<lparr>header := (header m)\<lparr>statusSpinner :=
                          fst (spinner_Update E msg (statusSpinner (header m)))\<rparr>\<rparr>
                in Inr (m, Batch [Some (Lib (spinner_Tick E (statusSpinner (header m)))),
                                  libcmd_of textInputCmd, libcmd_of viewportCmd])
            else Inr (m, [])
        | ResponseMsg text e \<Rightarrow>
            let m = m\<lparr>waiting := False\<rparr>
            in (case e of
                  Some er \<Rightarrow> Inr (m\<lparr>err := Some er\<rparr>, [])
                | None \<Rightarrow>
                    let message = wordwrap_String E text (viewportTextWidth - 3);
                        response =
                          style_Render E (responseStyle m) responsePrefix @
                          style_Render E (responseTextStyle m) message
                    in if messages m = [] then Inl Panic
                       else
                         let m = m\<lparr>messages := butlast (messages m) @ [response]\<rparr>;
                             m = UpdateViewport E m;
                             m = m\<lparr>viewport := viewport_GotoBottom E (viewport m)\<rparr>
                         in Inr (m, []))
        | StatusMsg e \<Rightarrow>
            let m = m\<lparr>header := (header m)\<lparr>requestDone := True\<rparr>\<rparr>
            in (case e of
                  Some er \<Rightarrow> Inr (m\<lparr>err := Some er\<rparr>, [])
                | None \<Rightarrow> Inr (m\<lparr>header := (header m)\<lparr>requestSuccess := True\<rparr>\<rparr>, []))
        | ErrorMsg er \<Rightarrow> Inr (m\<lparr>err := Some er\<rparr>, [])
        | OtherMsg _ \<Rightarrow>
            Inr (m, Batch [libcmd_of textInputCmd, libcmd_of viewportCmd,
                           libcmd_of spinnerCmd]))"

text \<open>
  What the header shows (\<open>headerModel.View\<close>): the spinner until the probe is done, then
  a check mark or a cross.
\<close>

datatype header_status = Pending | Succeeded | Failed

definition HeaderStatus :: "'sp headerModel \<Rightarrow> header_status" where
  "HeaderStatus h =
    (if requestDone h then (if requestSuccess h then Succeeded else Failed) else Pending)"

subsection \<open>The commands and the conversation history\<close>

text \<open>
  \<open>chatMessages\<close> is a package-level slice of \<open>openai.ChatCompletionMessage\<close>; only the
  closure \<open>GetResponseCmd\<close> returns touches it. A response of the backend is the list of
  its choices' messages and the error \<open>CreateChatCompletion\<close> returns with it.
\<close>

datatype role = System | User | Assistant | Tool

record chat_message =
  Role :: role
  Content :: string

type_synonym response = "chat_message list \<times> error option"

text \<open>
  The closure runs in a goroutine of its own and blocks in \<open>CreateChatCompletion\<close>. Its
  two halves: up to the request (the history it sends is the result), and from the
  response on. \<open>resp.Choices[0]\<close> panics when the response has no choice.
\<close>

definition GetResponseCmd_request :: "string \<Rightarrow> chat_message list \<Rightarrow> chat_message list" where
  "GetResponseCmd_request message history =
    history @ [\<lparr>Role = User, Content = message\<rparr>]"

definition GetResponseCmd_response ::
  "response \<Rightarrow> chat_message list \<Rightarrow> failure + (chat_message list \<times> msg)" where
  "GetResponseCmd_response resp history =
    (case fst resp of
       [] \<Rightarrow> Inl Panic
     | choice # _ \<Rightarrow> Inr (history @ [choice], ResponseMsg (Content choice) (snd resp)))"

subsection \<open>The running program\<close>

text \<open>
  The Bubble Tea runtime owns the current model and calls \<open>Update\<close> with one message at a
  time; every command \<open>Init\<close> or \<open>Update\<close> returns runs in a goroutine of its own, and the
  message it returns is handed to \<open>Update\<close> later. The state of the running program is the
  model, the history \<open>chatMessages\<close>, the number of \<open>GetStatusCmd\<close> closures under way
  (\<open>probes\<close>), and the \<open>GetResponseCmd\<close> closures under way: \<open>dispatched\<close> (returned by
  \<open>Update\<close>, not started), \<open>requested\<close> (blocked in \<open>CreateChatCompletion\<close>) and \<open>inbox\<close>
  (finished, their \<open>responseMsg\<close> not yet handled).
\<close>

record ('ta, 'vp, 'sp) system =
  mdl :: "('ta, 'vp, 'sp) model"
  chatMessages :: "chat_message list"
  probes :: nat
  dispatched :: "string list"
  requested :: "string list"
  inbox :: "msg list"

text \<open>The chat requests and the probes among the commands of a batch.\<close>

fun requests_of :: "cmd list \<Rightarrow> string list" where
  "requests_of [] = []"
| "requests_of (GetResponseCmd message # cs) = message # requests_of cs"
| "requests_of (_ # cs) = requests_of cs"

fun probes_of :: "cmd list \<Rightarrow> nat" where
  "probes_of [] = 0"
| "probes_of (GetStatusCmd # cs) = Suc (probes_of cs)"
| "probes_of (_ # cs) = probes_of cs"

text \<open>The program starts with \<open>initialModel\<close> and the commands of \<open>Init\<close>.\<close>

definition initial_system :: "('ta, 'vp, 'sp) components \<Rightarrow> ('ta, 'vp, 'sp) system" where
  "initial_system E =
    (let cmds = Init E (initialModel E)
     in \<lparr> mdl = initialModel E, chatMessages = [], probes = probes_of cmds,
          dispatched = requests_of cmds, requested = [], inbox = [] \<rparr>)"

text \<open>
  The closure \<open>GetStatusCmd\<close> returns: \<open>client.ListModels\<close> gives the error \<open>e\<close>, and the
  closure's message is a \<open>statusMsg\<close> with it.
\<close>

definition GetStatusCmd_run :: "error option \<Rightarrow> msg" where
  "GetStatusCmd_run e = StatusMsg e"

text \<open>
  What can happen next. \<open>Event e\<close>: the runtime hands \<open>Update\<close> a message that no command
  of the program produces (a key, a tick, anything else); a \<open>responseMsg\<close> and a
  \<open>statusMsg\<close> are only ever produced by the closures of \<open>GetResponseCmd\<close> and
  \<open>GetStatusCmd\<close>, so they are no such events. \<open>Probe e\<close>: a probe under way finishes with
  the error \<open>e\<close> and \<open>Update\<close> handles its \<open>statusMsg\<close>. \<open>Start i\<close>: a dispatched chat
  closure runs up to its request. \<open>Finish i resp\<close>: the backend answers a request with
  \<open>resp\<close>. \<open>Deliver i\<close>: \<open>Update\<close> gets a finished chat closure's message. Goroutines are
  scheduled in any order, hence the positions. \<open>Blocked\<close> says that the action cannot
  happen in the state. The runtime stops some time after a \<open>tea.Quit\<close>; the runs below
  may go on, which only adds states.
\<close>

datatype action = Event msg | Probe "error option" | Start nat | Finish nat response | Deliver nat

definition remove_nth :: "nat \<Rightarrow> 'a list \<Rightarrow> 'a list" where
  "remove_nth i xs = take i xs @ drop (Suc i) xs"

definition handle ::
  "('ta, 'vp, 'sp) components \<Rightarrow> ('ta, 'vp, 'sp) system \<Rightarrow> msg \<Rightarrow>
     failure + ('ta, 'vp, 'sp) system" where
  "handle E s e =
    (case Update E (mdl s) e of
       Inl f \<Rightarrow> Inl f
     | Inr (m, cmds) \<Rightarrow>
         Inr (s\<lparr>mdl := m, probes := probes s + probes_of cmds,
                dispatched := dispatched s @ requests_of cmds\<rparr>))"

fun is_response :: "msg \<Rightarrow> bool" where
  "is_response (ResponseMsg _ _) = True"
| "is_response _ = False"

fun is_status :: "msg \<Rightarrow> bool" where
  "is_status (StatusMsg _) = True"
| "is_status _ = False"

fun step ::
  "('ta, 'vp, 'sp) components \<Rightarrow> ('ta, 'vp, 'sp) system \<Rightarrow> action \<Rightarrow>
     failure + ('ta, 'vp, 'sp) system" where
  "step E s (Event e) =
     (if is_response e \<or> is_status e then Inl Blocked else handle E s e)"
| "step E s (Probe e) =
     (if 0 < probes s
      then handle E (s\<lparr>probes := probes s - 1\<rparr>) (GetStatusCmd_run e)
      else Inl Blocked)"
| "step E s (Start i) =
     (if i < length (dispatched s)
      then Inr (s\<lparr>chatMessages := GetResponseCmd_request (dispatched s ! i) (chatMessages s),
                  dispatched := remove_nth i (dispatched s),
                  requested := requested s @ [dispatched s ! i]\<rparr>)
      else Inl Blocked)"
| "step E s (Finish i resp) =
     (if i < length (requested s)
      then (case GetResponseCmd_response resp (chatMessages s) of
              Inl f \<Rightarrow> Inl f
            | Inr (history, r) \<Rightarrow>
                Inr (s\<lparr>chatMessages := history,
                       requested := remove_nth i (requested s),
                       inbox := inbox s @ [r]\<rparr>))
      else Inl Blocked)"
| "step E s (Deliver i) =
     (if i < length (inbox s)
      then handle E (s\<lparr>inbox := remove_nth i (inbox s)\<rparr>) (inbox s ! i)
      else Inl Blocked)"

fun run ::
  "('ta, 'vp, 'sp) components \<Rightarrow> ('ta, 'vp, 'sp) system \<Rightarrow> action list \<Rightarrow>
     failure + ('ta, 'vp, 'sp) system" where
  "run E s [] = Inr s"
| "run E s (a # as) = (case step E s a of Inl f \<Rightarrow> Inl f | Inr s' \<Rightarrow> run E s' as)"

text \<open>The chat completions under way.\<close>

definition outstanding :: "('ta, 'vp, 'sp) system \<Rightarrow> nat" where
  "outstanding s = length (dispatched s) + length (requested s) + length (inbox s)"

text \<open>
  Runs in which the user submits only when no chat completion is under way: the same
  steps, but the enter key cannot happen while one is.
\<close>

definition submit :: action where
  "submit = Event (KeyMsg ''enter'')"

definition step_in_turn ::
  "('ta, 'vp, 'sp) components \<Rightarrow> ('ta, 'vp, 'sp) system \<Rightarrow> action \<Rightarrow>
     failure + ('ta, 'vp, 'sp) system" where
  "step_in_turn E s a =
    (if a = submit \<and> 0 < outstanding s then Inl Blocked else step E s a)"

fun run_in_turn ::
  "('ta, 'vp, 'sp) components \<Rightarrow> ('ta, 'vp, 'sp) system \<Rightarrow> action list \<Rightarrow>
     failure + ('ta, 'vp, 'sp) system" where
  "run_in_turn E s [] = Inr s"
| "run_in_turn E s (a # as) =
     (case step_in_turn E s a of Inl f \<Rightarrow> Inl f | Inr s' \<Rightarrow> run_in_turn E s' as)"



subsection \<open>The lines of the transcript\<close>

definition prompt_line :: "('ta, 'vp, 'sp) components \<Rightarrow> ('ta, 'vp, 'sp) model \<Rightarrow> string \<Rightarrow> string" where
  "prompt_line E m message =
    style_Render E (promptStyle m) promptPrefix @ style_Render E (promptTextStyle m) message"

definition placeholder_line :: "('ta, 'vp, 'sp) components \<Rightarrow> ('ta, 'vp, 'sp) model \<Rightarrow> string" where
  "placeholder_line E m =
    style_Render E (responseStyle m) responsePrefix @ spinner_View E (spinner m)"





text \<open>The message a submit sends: the text area's value after it saw the key, trimmed and wrapped.\<close>

definition submitted_message :: "('ta, 'vp, 'sp) components \<Rightarrow> ('ta, 'vp, 'sp) model \<Rightarrow> string" where
  "submitted_message E m =
    wordwrap_String E
      (TrimSpace (textarea_Value E (fst (textarea_Update E (KeyMsg ''enter'') (textarea m)))))
      (viewportTextWidth - 3)"

subsection \<open>A plain instance of the components\<close>

text \<open>
  The smallest components that behave as the libraries document, for running the model on
  concrete inputs: the text area is its buffer, a one-character key appends to it and
  \<open>Reset\<close> empties it; the viewport is its content; a spinner has the ID it was created
  with, a tag and a frame, and advances on a tick that carries its ID and its tag; styles
  and the markdown renderer add nothing, and lines shorter than the width are wrapped to
  themselves (the inputs below are short).
\<close>

record spin =
  spin_id :: int
  spin_tag :: int
  spin_frame :: nat
  spin_frames :: "string list"

definition spin_frames_of :: "spinner_type \<Rightarrow> string list" where
  "spin_frames_of ty =
    (case ty of
       Line \<Rightarrow> [''|'', ''/'', ''-'', [CHR 0x5C]]
     | MiniDot \<Rightarrow>
         map (\<lambda>b. [CHR 0xE2, CHR 0xA0, b])
           [CHR 0x8B, CHR 0x99, CHR 0xB9, CHR 0xB8, CHR 0xBC, CHR 0xB4, CHR 0xA6, CHR 0xA7,
            CHR 0x87, CHR 0x8F])"

definition spin_New :: "spinner_type \<Rightarrow> nat \<Rightarrow> spin" where
  "spin_New ty n =
    \<lparr> spin_id = int n, spin_tag = 0, spin_frame = 0, spin_frames = spin_frames_of ty \<rparr>"

definition spin_Update :: "msg \<Rightarrow> spin \<Rightarrow> spin \<times> libcmd option" where
  "spin_Update msg sp =
    (case msg of
       TickMsg i t \<Rightarrow>
         if i \<noteq> spin_id sp \<or> t \<noteq> spin_tag sp then (sp, None)
         else
           let sp' = sp\<lparr>spin_frame :=
                          (if length (spin_frames sp) \<le> Suc (spin_frame sp) then 0
                           else Suc (spin_frame sp)),
                        spin_tag := spin_tag sp + 1\<rparr>
           in (sp', Some (SpinnerTick (spin_id sp') (spin_tag sp')))
     | _ \<Rightarrow> (sp, None))"

definition spin_View :: "spin \<Rightarrow> string" where
  "spin_View sp = spin_frames sp ! spin_frame sp"

definition buffer_Update :: "msg \<Rightarrow> string \<Rightarrow> string \<times> libcmd option" where
  "buffer_Update msg ta =
    (case msg of
       KeyMsg k \<Rightarrow> (if length k = 1 then (ta @ k, None) else (ta, None))
     | _ \<Rightarrow> (ta, None))"

definition plain :: "(string, string, spin) components" where
  "plain =
    \<lparr> textarea_New = [],
      textarea_Update = buffer_Update,
      textarea_Value = (\<lambda>ta. ta),
      textarea_Reset = (\<lambda>ta. []),
      viewport_New = [],
      viewport_Update = (\<lambda>msg vp. (vp, None)),
      viewport_SetContent = (\<lambda>content vp. content),
      viewport_GotoBottom = (\<lambda>vp. vp),
      spinner_New = spin_New,
      spinner_Update = spin_Update,
      spinner_ID = spin_id,
      spinner_View = spin_View,
      spinner_Tick = (\<lambda>sp. SpinnerTick (spin_id sp) (spin_tag sp)),
      style_Render = (\<lambda>st text. text),
      renderer_Render = (\<lambda>text. text),
      wordwrap_String = (\<lambda>text width. text) \<rparr>"

text \<open>The state a run from the start ends in.\<close>

definition reached :: "('ta, 'vp, 'sp) components \<Rightarrow> action list \<Rightarrow> ('ta, 'vp, 'sp) system" where
  "reached E as = projr (run E (initial_system E) as)"

subsection \<open>What holds of every state the program reaches\<close>

text \<open>
  The transcript has an even number of lines; it is not empty while \<open>waiting\<close> is set or
  a chat completion is under way; the inbox holds \<open>responseMsg\<close>s only; the header says
  success only once the probe is done; and at most one probe is under way, none once the
  header says that the probe is done.
\<close>

definition safe :: "('ta, 'vp, 'sp) system \<Rightarrow> bool" where
  "safe s \<longleftrightarrow>
    even (length (messages (mdl s))) \<and>
    (waiting (mdl s) \<longrightarrow> messages (mdl s) \<noteq> []) \<and>
    (0 < outstanding s \<longrightarrow> messages (mdl s) \<noteq> []) \<and>
    list_all is_response (inbox s) \<and>
    (requestSuccess (header (mdl s)) \<longrightarrow> requestDone (header (mdl s))) \<and>
    probes s \<le> 1 \<and>
    (requestDone (header (mdl s)) \<longrightarrow> probes s = 0)"

subsection \<open>Concrete runs\<close>

text \<open>
  One turn with the plain components: the user types \<open>hi\<close> and submits, the closure
  starts, the chat spinner (the second spinner, tag 0) ticks once, the backend answers,
  and the answer is handled. \<open>hello_answered\<close> stops before the answer is handled.
\<close>

definition hello_turn :: "action list" where
  "hello_turn =
    [Event (KeyMsg ''h''), Event (KeyMsg ''i''), submit, Start 0, Event (TickMsg 2 0),
     Finish 0 ([\<lparr>Role = Assistant, Content = ''hi there''\<rparr>], None), Deliver 0]"

definition hello_answered :: "action list" where
  "hello_answered = take 6 hello_turn"

text \<open>The probe fails.\<close>

definition probe_failed :: "action list" where
  "probe_failed = [Probe (Some (Error ''no route to host''))]"


text \<open>The user types \<open>hi\<close>, submits, and presses enter again at once.\<close>

definition double_submit :: "action list" where
  "double_submit = [Event (KeyMsg ''h''), Event (KeyMsg ''i''), submit, submit]"

text \<open>The user types two spaces and submits.\<close>

definition blank_submit :: "action list" where
  "blank_submit = [Event (KeyMsg '' ''), Event (KeyMsg '' ''), submit]"

text \<open>The user types \<open>hi\<close>, submits, and types \<open>x\<close> while the answer is awaited.\<close>

definition typed_while_waiting :: "action list" where
  "typed_while_waiting = [Event (KeyMsg ''h''), Event (KeyMsg ''i''), submit, Event (KeyMsg ''x'')]"

subsection \<open>Stale ticks\<close>

text \<open>
  A tick is stale for a model when its ID is neither spinner's, or the chat spinner's
  while \<open>waiting\<close> is not set, or the header spinner's once the probe is done.
\<close>

definition stale_tick :: "('ta, 'vp, 'sp) components \<Rightarrow> ('ta, 'vp, 'sp) model \<Rightarrow> int \<Rightarrow> bool" where
  "stale_tick E m i \<longleftrightarrow>
    i \<noteq> spinner_ID E (spinner m) \<and> i \<noteq> spinner_ID E (statusSpinner (header m)) \<or>
    i = spinner_ID E (spinner m) \<and> \<not> waiting m \<or>
    i = spinner_ID E (statusSpinner (header m)) \<and> HeaderStatus (header m) \<noteq> Pending"

text \<open>
  What the libraries document of a tick: the text area and the viewport have no case for
  it, and a spinner rejects a tick that carries another spinner's ID.
\<close>

definition tick_left_alone ::
  "('ta, 'vp, 'sp) components \<Rightarrow> ('ta, 'vp, 'sp) model \<Rightarrow> int \<Rightarrow> int \<Rightarrow> bool" where
  "tick_left_alone E m i t \<longleftrightarrow>
    fst (textarea_Update E (TickMsg i t) (textarea m)) = textarea m \<and>
    fst (viewport_Update E (TickMsg i t) (viewport m)) = viewport m \<and>
    (i \<noteq> spinner_ID E (spinner m) \<longrightarrow>
       fst (spinner_Update E (TickMsg i t) (spinner m)) = spinner m)"

subsection \<open>Counting turns\<close>





section \<open>Properties of \<open>Update\<close>\<close>

subsection \<open>What every transition does\<close>

lemma requests_of_Batch_lib [simp]:
  "requests_of (Batch (libcmd_of a # cs)) = requests_of (Batch cs)"
  by (cases a) (simp_all add: libcmd_of_def)

lemma probes_of_Batch_lib [simp]:
  "probes_of (Batch (libcmd_of a # cs)) = probes_of (Batch cs)"
  by (cases a) (simp_all add: libcmd_of_def)

lemma length_replace_last: "xs \<noteq> [] \<Longrightarrow> length (butlast xs @ [y]) = length xs"
  by (cases xs rule: rev_cases) simp_all

lemma UpdateViewport_fields [simp]:
  "messages (UpdateViewport E m) = messages m"
  "waiting (UpdateViewport E m) = waiting m"
  "header (UpdateViewport E m) = header m"
  "err (UpdateViewport E m) = err m"
  "spinner (UpdateViewport E m) = spinner m"
  "textarea (UpdateViewport E m) = textarea m"
  "promptStyle (UpdateViewport E m) = promptStyle m"
  "promptTextStyle (UpdateViewport E m) = promptTextStyle m"
  "responseStyle (UpdateViewport E m) = responseStyle m"
  "responseTextStyle (UpdateViewport E m) = responseTextStyle m"
  by (simp_all add: UpdateViewport_def Let_def)

lemma Update_length:
  "Update E m msg = Inr (m', cmds) \<Longrightarrow>
   length (messages m') =
     (if msg = KeyMsg ''enter'' then length (messages m) + 2 else length (messages m))"
  by (auto simp: Update_def Let_def length_replace_last
           split: prod.splits msg.splits option.splits if_splits)

lemma Update_requests:
  "Update E m msg = Inr (m', cmds) \<Longrightarrow>
   requests_of cmds = (if msg = KeyMsg ''enter'' then [submitted_message E m] else [])"
  by (auto simp: Update_def Let_def submitted_message_def
           split: prod.splits msg.splits option.splits if_splits)

lemma Update_probes: "Update E m msg = Inr (m', cmds) \<Longrightarrow> probes_of cmds = 0"
  by (auto simp: Update_def Let_def
           split: prod.splits msg.splits option.splits if_splits)


lemma Update_waiting:
  "Update E m msg = Inr (m', cmds) \<Longrightarrow> waiting m' \<Longrightarrow> waiting m \<or> msg = KeyMsg ''enter''"
  by (auto simp: Update_def Let_def
           split: prod.splits msg.splits option.splits if_splits)


lemma Update_header:
  "Update E m msg = Inr (m', cmds) \<Longrightarrow>
   requestDone (header m') = (requestDone (header m) \<or> (\<exists>e. msg = StatusMsg e)) \<and>
   requestSuccess (header m') = (requestSuccess (header m) \<or> msg = StatusMsg None)"
  by (auto simp: Update_def Let_def
           split: prod.splits msg.splits option.splits if_splits)

subsection \<open>A failed chat completion\<close>

text \<open>
  C2. A \<open>responseMsg\<close> with an error (whether or not \<open>waiting\<close> is set): \<open>Update\<close> returns
  normally, with no command; \<open>waiting\<close> is cleared, the error is stored in \<open>err\<close>, and the
  transcript is the one before, so its last entry is still the placeholder; the header is
  untouched.
\<close>

theorem C2_chat_error:
  "\<exists>m'. Update E m (ResponseMsg text (Some e)) = Inr (m', []) \<and>
        waiting m' = False \<and> err m' = Some e \<and>
        messages m' = messages m \<and> header m' = header m"
  by (simp add: Update_def Let_def split: prod.splits)

section \<open>Properties of the running program\<close>

subsection \<open>The invariant\<close>

lemma safe_initial: "safe (initial_system E)"
  by (simp add: safe_def initial_system_def initialModel_def NewHeader_def outstanding_def
        Init_def Let_def)

lemma list_all_remove_nth: "list_all P xs \<Longrightarrow> list_all P (remove_nth i xs)"
  by (auto simp: remove_nth_def list_all_iff dest: in_set_takeD in_set_dropD)

lemma length_remove_nth: "i < length xs \<Longrightarrow> length (remove_nth i xs) = length xs - 1"
  by (simp add: remove_nth_def)

lemma handle_safe:
  assumes "handle E s e = Inr s'"
    and "even (length (messages (mdl s)))"
    and "waiting (mdl s) \<longrightarrow> messages (mdl s) \<noteq> []"
    and "0 < outstanding s \<longrightarrow> messages (mdl s) \<noteq> []"
    and "list_all is_response (inbox s)"
    and "requestSuccess (header (mdl s)) \<longrightarrow> requestDone (header (mdl s))"
    and "probes s \<le> 1"
    and "requestDone (header (mdl s)) \<longrightarrow> probes s = 0"
    and "is_status e \<longrightarrow> probes s = 0"
  shows "safe s'"
proof -
  from assms(1) obtain m' cmds where
    u: "Update E (mdl s) e = Inr (m', cmds)" and
    s': "s' = s\<lparr>mdl := m', probes := probes s + probes_of cmds,
                 dispatched := dispatched s @ requests_of cmds\<rparr>"
    by (auto simp: handle_def split: sum.splits)
  note len = Update_length [OF u] and req = Update_requests [OF u]
    and hdr = Update_header [OF u] and prb = Update_probes [OF u]
  have w: "waiting m' \<Longrightarrow> waiting (mdl s) \<or> e = KeyMsg ''enter''"
    using Update_waiting [OF u] by simp
  have p: "requestDone (header m') \<longrightarrow> probes s = 0"
    using hdr assms(8,9) by auto
  show ?thesis
    unfolding safe_def s' using assms(2-7) len req hdr w p prb
    by (auto simp: outstanding_def split: if_splits)
qed

lemma safe_handle:
  assumes "safe s" and "handle E s e = Inr s'" and "\<not> is_status e"
  shows "safe s'"
  using assms(1,3) unfolding safe_def
  by (intro handle_safe [OF assms(2), unfolded safe_def]) blast+

lemma step_safe: "safe s \<Longrightarrow> step E s a = Inr s' \<Longrightarrow> safe s'"
proof (cases a)
  case (Event e)
  assume "safe s" "step E s a = Inr s'"
  then show ?thesis using Event
    by (auto split: if_splits intro: safe_handle)
next
  case (Probe e)
  assume a: "safe s" "step E s a = Inr s'"
  then have p: "0 < probes s" and
    h: "handle E (s\<lparr>probes := probes s - 1\<rparr>) (GetStatusCmd_run e) = Inr s'"
    using Probe by (auto split: if_splits)
  from a(1) p have "probes s = 1"
    by (simp add: safe_def)
  with a(1) show ?thesis
    by (intro handle_safe [OF h]) (auto simp: safe_def outstanding_def)
next
  case (Start i)
  assume "safe s" "step E s a = Inr s'"
  then show ?thesis using Start
    by (auto simp: safe_def outstanding_def length_remove_nth split: if_splits)
next
  case (Finish i resp)
  assume "safe s" "step E s a = Inr s'"
  then show ?thesis using Finish
    by (auto simp: safe_def outstanding_def length_remove_nth GetResponseCmd_response_def
             split: if_splits sum.splits list.splits)
next
  case (Deliver i)
  assume a: "safe s" "step E s a = Inr s'"
  then have i: "i < length (inbox s)" and
    h: "handle E (s\<lparr>inbox := remove_nth i (inbox s)\<rparr>) (inbox s ! i) = Inr s'"
    using Deliver by (auto split: if_splits)
  from a(1) i have "messages (mdl s) \<noteq> []"
    by (auto simp: safe_def outstanding_def)
  moreover from a(1) i have "is_response (inbox s ! i)"
    by (simp add: safe_def list_all_length)
  then have "\<not> is_status (inbox s ! i)"
    by (cases "inbox s ! i") simp_all
  ultimately show ?thesis using a(1)
    by (intro handle_safe [OF h]) (auto simp: safe_def list_all_remove_nth)
qed

lemma run_safe: "safe s \<Longrightarrow> run E s as = Inr s' \<Longrightarrow> safe s'"
  by (induction as arbitrary: s) (auto split: sum.splits dest: step_safe)

lemma reachable_safe: "run E (initial_system E) as = Inr s \<Longrightarrow> safe s"
  using run_safe [OF safe_initial] .

lemma reached_run: "\<not> isl (run E (initial_system E) as) \<Longrightarrow> run E (initial_system E) as = Inr (reached E as)"
  by (simp add: reached_def)

subsection \<open>The parity of the transcript\<close>

text \<open>
  C5. In every state the program reaches, the transcript has an even number of lines when
  no reply is awaited, and an odd number only while \<open>waiting\<close> is set. (A submit appends
  the user's line and the placeholder together, so the number is in fact always even.)
\<close>

theorem C5_transcript_parity:
  assumes "run E (initial_system E) as = Inr s"
  shows "(\<not> waiting (mdl s) \<longrightarrow> even (length (messages (mdl s)))) \<and>
         (odd (length (messages (mdl s))) \<longrightarrow> waiting (mdl s))"
  using reachable_safe [OF assms] by (simp add: safe_def)

text \<open>The turn \<open>hello_turn\<close> ends with \<open>waiting\<close> cleared and two lines.\<close>

theorem C5_transcript_parity_witness:
  "run plain (initial_system plain) hello_turn = Inr (reached plain hello_turn) \<and>
   \<not> waiting (mdl (reached plain hello_turn)) \<and>
   length (messages (mdl (reached plain hello_turn))) = 2"
proof -
  have ok: "\<not> isl (run plain (initial_system plain) hello_turn)"
    by code_simp
  have r: "run plain (initial_system plain) hello_turn = Inr (reached plain hello_turn)"
    using ok by (rule reached_run)
  have w: "\<not> waiting (mdl (reached plain hello_turn))"
    by code_simp
  have l: "length (messages (mdl (reached plain hello_turn))) = 2"
    by code_simp
  from C5_transcript_parity [OF r] w have "even (length (messages (mdl (reached plain hello_turn))))"
    by simp
  with r w l show ?thesis by simp
qed

subsection \<open>The slices of the transcript\<close>




subsection \<open>The header status\<close>

lemma handle_status:
  assumes "handle E s e = Inr s'"
  shows "requestDone (header (mdl s')) = (requestDone (header (mdl s)) \<or> is_status e)"
    and "requestSuccess (header (mdl s')) = (requestSuccess (header (mdl s)) \<or> e = StatusMsg None)"
proof -
  from assms obtain m' cmds where
    u: "Update E (mdl s) e = Inr (m', cmds)" and m: "mdl s' = m'"
    by (auto simp: handle_def split: sum.splits)
  show "requestDone (header (mdl s')) = (requestDone (header (mdl s)) \<or> is_status e)"
    using Update_header [OF u] m by (cases e) simp_all
  show "requestSuccess (header (mdl s')) = (requestSuccess (header (mdl s)) \<or> e = StatusMsg None)"
    using Update_header [OF u] m by simp
qed

lemma step_keeps_status:
  assumes "safe s" and "HeaderStatus (header (mdl s)) \<noteq> Pending" and "step E s a = Inr s'"
  shows "HeaderStatus (header (mdl s')) = HeaderStatus (header (mdl s))"
proof -
  from assms(2) have d: "requestDone (header (mdl s))"
    by (simp add: HeaderStatus_def split: if_splits)
  with assms(1) have p: "probes s = 0"
    by (simp add: safe_def)
  show ?thesis
  proof (cases a)
    case (Event e)
    with assms(3) have h: "handle E s e = Inr s'" and n: "\<not> is_status e"
      by (auto split: if_splits)
    from n have "e \<noteq> StatusMsg None" by auto
    with handle_status [OF h] n show ?thesis
      by (simp add: HeaderStatus_def)
  next
    case (Probe e)
    with assms(3) p show ?thesis by simp
  next
    case (Start i)
    with assms(3) show ?thesis
      by (auto split: if_splits)
  next
    case (Finish i resp)
    with assms(3) show ?thesis
      by (auto split: if_splits sum.splits)
  next
    case (Deliver i)
    with assms(3) have i: "i < length (inbox s)" and
      h: "handle E (s\<lparr>inbox := remove_nth i (inbox s)\<rparr>) (inbox s ! i) = Inr s'"
      by (auto split: if_splits)
    from assms(1) i have "is_response (inbox s ! i)"
      by (simp add: safe_def list_all_length)
    then have "\<not> is_status (inbox s ! i)" and "inbox s ! i \<noteq> StatusMsg None"
      by (cases "inbox s ! i"; simp)+
    with handle_status [OF h] show ?thesis
      by (simp add: HeaderStatus_def)
  qed
qed

lemma run_keeps_status:
  "safe s \<Longrightarrow> HeaderStatus (header (mdl s)) \<noteq> Pending \<Longrightarrow> run E s bs = Inr s' \<Longrightarrow>
   HeaderStatus (header (mdl s')) = HeaderStatus (header (mdl s))"
proof (induction bs arbitrary: s)
  case Nil
  then show ?case by simp
next
  case (Cons b bs)
  from Cons.prems(3) obtain s1 where
    b: "step E s b = Inr s1" and r: "run E s1 bs = Inr s'"
    by (auto split: sum.splits)
  have k: "HeaderStatus (header (mdl s1)) = HeaderStatus (header (mdl s))"
    using Cons.prems(1,2) b by (rule step_keeps_status)
  have "safe s1" using Cons.prems(1) b by (rule step_safe)
  from Cons.IH [OF this _ r] k Cons.prems(2) show ?case by simp
qed

text \<open>
  C3. The header status goes one way. In every run of the program, once the status has
  left pending (the probe's \<open>statusMsg\<close> has been handled), it is the same after every
  continuation of the run, whatever happens in it, and no further \<open>statusMsg\<close> can be
  handled: the only \<open>GetStatusCmd\<close> is the one \<open>Init\<close> dispatches. So a status that is
  failed stays failed, and one that is succeeded stays succeeded.
\<close>

theorem C3_header_status_one_way:
  assumes "run E (initial_system E) as = Inr s"
    and "HeaderStatus (header (mdl s)) \<noteq> Pending"
    and "run E s bs = Inr s'"
  shows "HeaderStatus (header (mdl s')) = HeaderStatus (header (mdl s)) \<and>
         step E s' (Probe e) = Inl Blocked"
proof -
  have s: "safe s" using assms(1) by (rule reachable_safe)
  have k: "HeaderStatus (header (mdl s')) = HeaderStatus (header (mdl s))"
    using s assms(2,3) by (rule run_keeps_status)
  have "safe s'" using s assms(3) by (rule run_safe)
  moreover from k assms(2) have "requestDone (header (mdl s'))"
    by (simp add: HeaderStatus_def split: if_splits)
  ultimately have "probes s' = 0"
    by (simp add: safe_def)
  with k show ?thesis by simp
qed

text \<open>The probe fails at the start, then the turn \<open>hello_turn\<close> follows: failed throughout.\<close>

theorem C3_header_status_one_way_witness:
  "run plain (initial_system plain) probe_failed = Inr (reached plain probe_failed) \<and>
   HeaderStatus (header (mdl (reached plain probe_failed))) = Failed \<and>
   run plain (reached plain probe_failed) hello_turn = Inr (reached plain (probe_failed @ hello_turn)) \<and>
   HeaderStatus (header (mdl (reached plain (probe_failed @ hello_turn)))) = Failed \<and>
   step plain (reached plain (probe_failed @ hello_turn)) (Probe None) = Inl Blocked"
proof -
  have ok: "\<not> isl (run plain (initial_system plain) probe_failed)"
    by code_simp
  have r: "run plain (initial_system plain) probe_failed = Inr (reached plain probe_failed)"
    using ok by (rule reached_run)
  have f: "HeaderStatus (header (mdl (reached plain probe_failed))) = Failed"
    by code_simp
  then have n: "HeaderStatus (header (mdl (reached plain probe_failed))) \<noteq> Pending"
    by simp
  have c: "run plain (reached plain probe_failed) hello_turn =
      Inr (reached plain (probe_failed @ hello_turn))"
    by code_simp
  from C3_header_status_one_way [OF r n c, of None] f r c show ?thesis by simp
qed

section \<open>Submits\<close>

lemma Update_enter:
  "\<exists>m' cmds. Update E m (KeyMsg ''enter'') = Inr (m', cmds) \<and>
     messages m' = messages m @
       [prompt_line E m (submitted_message E m), placeholder_line E m'] \<and>
     waiting m' \<and> requests_of cmds = [submitted_message E m] \<and> probes_of cmds = 0"
  by (simp add: Update_def Let_def prompt_line_def placeholder_line_def submitted_message_def
        split: prod.splits)

text \<open>
  C1, as the code has it. The enter branch does not look at \<open>waiting\<close>: while it is set,
  a submit is handled like any other. It appends the user's line and a new placeholder
  to the transcript, leaves \<open>waiting\<close> set, dispatches one more chat completion, and does
  not touch the history (only the closures do).
\<close>

theorem C1_submit_accepted_while_waiting:
  assumes "waiting (mdl s)"
  shows "\<exists>s'. step E s submit = Inr s' \<and>
           messages (mdl s') = messages (mdl s) @
             [prompt_line E (mdl s) (submitted_message E (mdl s)), placeholder_line E (mdl s')] \<and>
           waiting (mdl s') \<and>
           chatMessages s' = chatMessages s \<and>
           dispatched s' = dispatched s @ [submitted_message E (mdl s)] \<and>
           outstanding s' = outstanding s + 1"
proof -
  from Update_enter [of E "mdl s"] obtain m' cmds where
    u: "Update E (mdl s) (KeyMsg ''enter'') = Inr (m', cmds)" and
    m: "messages m' = messages (mdl s) @
          [prompt_line E (mdl s) (submitted_message E (mdl s)), placeholder_line E m']" and
    w: "waiting m'" and r: "requests_of cmds = [submitted_message E (mdl s)]"
    by blast
  define s' where "s' = s\<lparr>mdl := m', probes := probes s + probes_of cmds,
    dispatched := dispatched s @ requests_of cmds\<rparr>"
  have "step E s submit = Inr s'"
    using u by (simp add: submit_def handle_def s'_def)
  moreover have "outstanding s' = outstanding s + 1"
    using r by (simp add: outstanding_def s'_def)
  moreover have "messages (mdl s') = messages (mdl s) @
      [prompt_line E (mdl s) (submitted_message E (mdl s)), placeholder_line E (mdl s')]"
    using m by (simp add: s'_def)
  moreover have "waiting (mdl s')" "chatMessages s' = chatMessages s"
    "dispatched s' = dispatched s @ [submitted_message E (mdl s)]"
    using w r by (simp_all add: s'_def)
  ultimately show ?thesis by blast
qed

text \<open>After \<open>hi\<close> is submitted, a second enter: two chat completions are under way.\<close>

theorem C1_submit_accepted_while_waiting_witness:
  "waiting (mdl (reached plain (take 3 double_submit))) \<and>
   outstanding (reached plain (take 3 double_submit)) = 1 \<and>
   step plain (reached plain (take 3 double_submit)) submit = Inr (reached plain double_submit) \<and>
   outstanding (reached plain double_submit) = 2"
proof -
  have w: "waiting (mdl (reached plain (take 3 double_submit)))"
    by code_simp
  have o: "outstanding (reached plain (take 3 double_submit)) = 1"
    by code_simp
  have st: "step plain (reached plain (take 3 double_submit)) submit = Inr (reached plain double_submit)"
    by code_simp
  from C1_submit_accepted_while_waiting [OF w, of plain] obtain s' where
    a: "step plain (reached plain (take 3 double_submit)) submit = Inr s'" and
    b: "outstanding s' = outstanding (reached plain (take 3 double_submit)) + 1"
    by blast
  from a st have "s' = reached plain double_submit" by simp
  with b o have "outstanding (reached plain double_submit) = 2" by simp
  with w o st show ?thesis by simp
qed

text \<open>
  C1 as claimed fails: in a state the program reaches with \<open>waiting\<close> set, a submit
  changes the transcript from two lines to four and dispatches a second chat completion.
\<close>

theorem C1_submit_while_waiting_counterexample:
  "run plain (initial_system plain) (take 3 double_submit) = Inr (reached plain (take 3 double_submit)) \<and>
   waiting (mdl (reached plain (take 3 double_submit))) \<and>
   length (messages (mdl (reached plain (take 3 double_submit)))) = 2 \<and>
   dispatched (reached plain (take 3 double_submit)) = [''hi''] \<and>
   step plain (reached plain (take 3 double_submit)) submit = Inr (reached plain double_submit) \<and>
   length (messages (mdl (reached plain double_submit))) = 4 \<and>
   dispatched (reached plain double_submit) = [''hi'', ''''] \<and>
   outstanding (reached plain double_submit) = 2"
proof -
  have ok: "\<not> isl (run plain (initial_system plain) (take 3 double_submit))"
    by code_simp
  have "run plain (initial_system plain) (take 3 double_submit) = Inr (reached plain (take 3 double_submit))"
    using ok by (rule reached_run)
  moreover have "waiting (mdl (reached plain (take 3 double_submit)))"
    by code_simp
  moreover have "length (messages (mdl (reached plain (take 3 double_submit)))) = 2"
    by code_simp
  moreover have "dispatched (reached plain (take 3 double_submit)) = [''hi'']"
    by code_simp
  moreover have "step plain (reached plain (take 3 double_submit)) submit = Inr (reached plain double_submit)"
    by code_simp
  moreover have "length (messages (mdl (reached plain double_submit))) = 4"
    by code_simp
  moreover have "dispatched (reached plain double_submit) = [''hi'', '''']"
    by code_simp
  moreover have "outstanding (reached plain double_submit) = 2"
    by code_simp
  ultimately show ?thesis by simp
qed

text \<open>
  C4, as the code has it. A submit whose input is empty after trimming is handled like
  any other: the user's line (the rendering of the wrapped empty string) and the
  placeholder are appended, \<open>waiting\<close> is set, and a chat completion for the wrapped empty
  string is dispatched.
\<close>

theorem C4_blank_submit_is_sent:
  assumes "TrimSpace (textarea_Value E (fst (textarea_Update E (KeyMsg ''enter'') (textarea m)))) = []"
  shows "\<exists>m' cmds. Update E m (KeyMsg ''enter'') = Inr (m', cmds) \<and>
           messages m' = messages m @
             [prompt_line E m (wordwrap_String E [] (viewportTextWidth - 3)),
              placeholder_line E m'] \<and>
           waiting m' \<and>
           requests_of cmds = [wordwrap_String E [] (viewportTextWidth - 3)]"
proof -
  have "submitted_message E m = wordwrap_String E [] (viewportTextWidth - 3)"
    using assms by (simp add: submitted_message_def)
  with Update_enter [of E m] show ?thesis by auto
qed

text \<open>Two spaces in the text area: the request sent is the empty message.\<close>

theorem C4_blank_submit_is_sent_witness:
  "textarea_Value plain (textarea (mdl (reached plain (take 2 blank_submit)))) = ''  '' \<and>
   TrimSpace (textarea_Value plain
     (fst (textarea_Update plain (KeyMsg ''enter'')
        (textarea (mdl (reached plain (take 2 blank_submit))))))) = [] \<and>
   requests_of (snd (projr (Update plain (mdl (reached plain (take 2 blank_submit)))
     (KeyMsg ''enter'')))) = ['''']"
proof -
  have v: "textarea_Value plain (textarea (mdl (reached plain (take 2 blank_submit)))) = ''  ''"
    by code_simp
  have h: "TrimSpace (textarea_Value plain
     (fst (textarea_Update plain (KeyMsg ''enter'')
        (textarea (mdl (reached plain (take 2 blank_submit))))))) = []"
    by code_simp
  have e: "wordwrap_String plain [] (viewportTextWidth - 3) = []"
    by (simp add: plain_def)
  from C4_blank_submit_is_sent [OF h] obtain m' cmds where
    u: "Update plain (mdl (reached plain (take 2 blank_submit))) (KeyMsg ''enter'') = Inr (m', cmds)"
    and r: "requests_of cmds = [wordwrap_String plain [] (viewportTextWidth - 3)]"
    by blast
  from u have "snd (projr (Update plain (mdl (reached plain (take 2 blank_submit)))
     (KeyMsg ''enter''))) = cmds"
    by simp
  with r e have "requests_of (snd (projr (Update plain (mdl (reached plain (take 2 blank_submit)))
     (KeyMsg ''enter'')))) = ['''']"
    by simp
  with v h show ?thesis by simp
qed

text \<open>
  C4 as claimed fails: with two spaces typed, a submit appends two lines to the empty
  transcript, sets \<open>waiting\<close> and dispatches a chat completion for the empty message.
\<close>

theorem C4_blank_submit_counterexample:
  "run plain (initial_system plain) (take 2 blank_submit) = Inr (reached plain (take 2 blank_submit)) \<and>
   TrimSpace (textarea_Value plain (textarea (mdl (reached plain (take 2 blank_submit))))) = [] \<and>
   messages (mdl (reached plain (take 2 blank_submit))) = [] \<and>
   \<not> waiting (mdl (reached plain (take 2 blank_submit))) \<and>
   dispatched (reached plain (take 2 blank_submit)) = [] \<and>
   step plain (reached plain (take 2 blank_submit)) submit = Inr (reached plain blank_submit) \<and>
   length (messages (mdl (reached plain blank_submit))) = 2 \<and>
   waiting (mdl (reached plain blank_submit)) \<and>
   dispatched (reached plain blank_submit) = ['''']"
proof -
  have ok: "\<not> isl (run plain (initial_system plain) (take 2 blank_submit))"
    by code_simp
  have "run plain (initial_system plain) (take 2 blank_submit) = Inr (reached plain (take 2 blank_submit))"
    using ok by (rule reached_run)
  moreover have "TrimSpace (textarea_Value plain (textarea (mdl (reached plain (take 2 blank_submit))))) = []"
    by code_simp
  moreover have "messages (mdl (reached plain (take 2 blank_submit))) = []"
    by code_simp
  moreover have "\<not> waiting (mdl (reached plain (take 2 blank_submit)))"
    by code_simp
  moreover have "dispatched (reached plain (take 2 blank_submit)) = []"
    by code_simp
  moreover have "step plain (reached plain (take 2 blank_submit)) submit = Inr (reached plain blank_submit)"
    by code_simp
  moreover have "length (messages (mdl (reached plain blank_submit))) = 2"
    by code_simp
  moreover have "waiting (mdl (reached plain blank_submit))"
    by code_simp
  moreover have "dispatched (reached plain blank_submit) = ['''']"
    by code_simp
  ultimately show ?thesis by simp
qed

section \<open>Spinner ticks\<close>

text \<open>
  C7. A stale tick changes nothing and schedules nothing: \<open>Update\<close> returns the model it
  was given and the \<open>nil\<close> command. \<open>Update\<close> does hand every message to the text area, the
  viewport and (while waiting) the chat spinner before it looks at it, so this needs what
  the libraries document of them (\<open>tick_left_alone\<close>), and that the two spinners have
  different IDs.
\<close>

theorem C7_stale_tick_ignored:
  assumes "stale_tick E m i"
    and "tick_left_alone E m i t"
    and "spinner_ID E (spinner m) \<noteq> spinner_ID E (statusSpinner (header m))"
  shows "Update E m (TickMsg i t) = Inr (m, [])"
proof -
  obtain ta c1 where ta: "textarea_Update E (TickMsg i t) (textarea m) = (ta, c1)"
    by (cases "textarea_Update E (TickMsg i t) (textarea m)")
  obtain vp c2 where vp: "viewport_Update E (TickMsg i t) (viewport m) = (vp, c2)"
    by (cases "viewport_Update E (TickMsg i t) (viewport m)")
  obtain sp c3 where sp: "spinner_Update E (TickMsg i t) (spinner m) = (sp, c3)"
    by (cases "spinner_Update E (TickMsg i t) (spinner m)")
  from assms(2) ta vp sp have eq: "ta = textarea m" "vp = viewport m"
    and sq: "i \<noteq> spinner_ID E (spinner m) \<Longrightarrow> sp = spinner m"
    by (simp_all add: tick_left_alone_def)
  from assms(1) consider
    (foreign) "i \<noteq> spinner_ID E (spinner m)" "i \<noteq> spinner_ID E (statusSpinner (header m))"
    | (chat) "i = spinner_ID E (spinner m)" "\<not> waiting m"
    | (probe) "i = spinner_ID E (statusSpinner (header m))" "requestDone (header m)"
    by (auto simp: stale_tick_def HeaderStatus_def split: if_splits)
  then show ?thesis
  proof cases
    case foreign
    with ta vp sp eq sq show ?thesis
      by (simp add: Update_def Let_def)
  next
    case chat
    with ta vp eq show ?thesis
      by (simp add: Update_def Let_def)
  next
    case probe
    with assms(3) have "i \<noteq> spinner_ID E (spinner m)" by simp
    with probe ta vp sp eq sq show ?thesis
      by (simp add: Update_def Let_def)
  qed
qed

text \<open>A tick with the ID 7, which is neither spinner's, while the answer to \<open>hi\<close> is awaited.\<close>

theorem C7_stale_tick_ignored_witness:
  "stale_tick plain (mdl (reached plain hello_answered)) 7 \<and>
   tick_left_alone plain (mdl (reached plain hello_answered)) 7 0 \<and>
   waiting (mdl (reached plain hello_answered)) \<and>
   spinner_ID plain (spinner (mdl (reached plain hello_answered))) = 2 \<and>
   spinner_ID plain (statusSpinner (header (mdl (reached plain hello_answered)))) = 1 \<and>
   Update plain (mdl (reached plain hello_answered)) (TickMsg 7 0) =
     Inr (mdl (reached plain hello_answered), [])"
proof -
  have a: "stale_tick plain (mdl (reached plain hello_answered)) 7"
    by code_simp
  have b: "tick_left_alone plain (mdl (reached plain hello_answered)) 7 0"
    by code_simp
  have w: "waiting (mdl (reached plain hello_answered))"
    by code_simp
  have c: "spinner_ID plain (spinner (mdl (reached plain hello_answered))) = 2"
    by code_simp
  have d: "spinner_ID plain (statusSpinner (header (mdl (reached plain hello_answered)))) = 1"
    by code_simp
  from c d have n: "spinner_ID plain (spinner (mdl (reached plain hello_answered))) \<noteq>
      spinner_ID plain (statusSpinner (header (mdl (reached plain hello_answered))))"
    by simp
  from C7_stale_tick_ignored [OF a b n] a b w c d show ?thesis by simp
qed

text \<open>
  C8, as the code has it. A tick of the chat spinner while \<open>waiting\<close> is set (and the
  transcript is not empty, as it is in every state the program reaches): \<open>Update\<close> changes
  the spinner (handed the tick twice, before and inside the branch), replaces the last
  line of the transcript by the placeholder with the spinner's new frame, derives the
  viewport from the new transcript and scrolls it to the bottom, and resets the text
  area; every other field of the model is as before, so are the number of lines and
  \<open>waiting\<close>. It schedules the spinner's next tick (with what the text area and the viewport
  returned) and dispatches nothing else; the history and the closures under way are
  untouched.
\<close>

theorem C8_chat_tick:
  assumes "waiting (mdl s)"
    and "i = spinner_ID E (spinner (mdl s))"
    and "spinner_ID E (fst (spinner_Update E (TickMsg i t) (spinner (mdl s)))) = i"
    and "messages (mdl s) \<noteq> []"
  shows "\<exists>m' cmds.
           Update E (mdl s) (TickMsg i t) = Inr (m', cmds) \<and>
           step E s (Event (TickMsg i t)) = Inr (s\<lparr>mdl := m'\<rparr>) \<and>
           m' = (mdl s)\<lparr>spinner := spinner m', messages := messages m',
                         textarea := textarea m', viewport := viewport m'\<rparr> \<and>
           spinner m' =
             fst (spinner_Update E (TickMsg i t)
               (fst (spinner_Update E (TickMsg i t) (spinner (mdl s))))) \<and>
           messages m' = butlast (messages (mdl s)) @ [placeholder_line E m'] \<and>
           length (messages m') = length (messages (mdl s)) \<and>
           textarea m' =
             textarea_Reset E (fst (textarea_Update E (TickMsg i t) (textarea (mdl s)))) \<and>
           viewport m' =
             viewport_GotoBottom E (viewport (UpdateViewport E
               (m'\<lparr>viewport := fst (viewport_Update E (TickMsg i t) (viewport (mdl s)))\<rparr>))) \<and>
           cmds = Batch [Some (Lib (spinner_Tick E (spinner m'))),
                         libcmd_of (snd (textarea_Update E (TickMsg i t) (textarea (mdl s)))),
                         libcmd_of (snd (viewport_Update E (TickMsg i t) (viewport (mdl s))))]"
proof -
  obtain ta c1 where ta: "textarea_Update E (TickMsg i t) (textarea (mdl s)) = (ta, c1)"
    by (cases "textarea_Update E (TickMsg i t) (textarea (mdl s))")
  obtain vp c2 where vp: "viewport_Update E (TickMsg i t) (viewport (mdl s)) = (vp, c2)"
    by (cases "viewport_Update E (TickMsg i t) (viewport (mdl s))")
  obtain sp c3 where sp: "spinner_Update E (TickMsg i t) (spinner (mdl s)) = (sp, c3)"
    by (cases "spinner_Update E (TickMsg i t) (spinner (mdl s))")
  from assms(3) sp have id: "spinner_ID E sp = i" by simp
  define m1 where "m1 = (mdl s)\<lparr>textarea := ta, viewport := vp,
      spinner := fst (spinner_Update E (TickMsg i t) sp)\<rparr>"
  define m2 where "m2 = m1\<lparr>messages := butlast (messages m1) @ [placeholder_line E m1]\<rparr>"
  define m' where "m' = (UpdateViewport E m2)\<lparr>textarea := textarea_Reset E ta,
      viewport := viewport_GotoBottom E (viewport (UpdateViewport E m2))\<rparr>"
  define cmds where "cmds = Batch [Some (Lib (spinner_Tick E (spinner m'))), libcmd_of c1, libcmd_of c2]"
  have u: "Update E (mdl s) (TickMsg i t) = Inr (m', cmds)"
    using assms(1,4) ta vp sp id
    by (simp add: Update_def Let_def m'_def m2_def m1_def cmds_def placeholder_line_def
          UpdateViewport_def)
  have r: "requests_of cmds = []" "probes_of cmds = 0"
    using Update_requests [OF u] Update_probes [OF u] by simp_all
  have st: "step E s (Event (TickMsg i t)) = Inr (s\<lparr>mdl := m'\<rparr>)"
    using u r by (simp add: handle_def)
  have f1: "spinner m' = fst (spinner_Update E (TickMsg i t) sp)"
    by (simp add: m'_def m2_def m1_def)
  have f2: "messages m' = butlast (messages (mdl s)) @ [placeholder_line E m']"
    by (simp add: m'_def m2_def m1_def placeholder_line_def)
  have f3: "textarea m' = textarea_Reset E ta"
    by (simp add: m'_def)
  have f4: "viewport m' = viewport_GotoBottom E (viewport (UpdateViewport E (m'\<lparr>viewport := vp\<rparr>)))"
    by (simp add: m'_def m2_def m1_def UpdateViewport_def Let_def)
  have f5: "m' = (mdl s)\<lparr>spinner := spinner m', messages := messages m',
      textarea := textarea m', viewport := viewport m'\<rparr>"
    by (simp add: m'_def m2_def m1_def UpdateViewport_def Let_def)
  have f6: "length (messages m') = length (messages (mdl s))"
    using f2 assms(4) by (simp add: length_replace_last)
  show ?thesis
    using u st f1 f2 f3 f4 f5 f6 ta vp sp cmds_def
    by (intro exI [of _ m'] exI [of _ cmds]) simp
qed

text \<open>The first tick of the chat spinner after \<open>hi\<close> was submitted and \<open>x\<close> typed.\<close>

theorem C8_chat_tick_witness:
  "waiting (mdl (reached plain typed_while_waiting)) \<and>
   spinner_ID plain (spinner (mdl (reached plain typed_while_waiting))) = 2 \<and>
   spinner_ID plain (fst (spinner_Update plain (TickMsg 2 0)
     (spinner (mdl (reached plain typed_while_waiting))))) = 2 \<and>
   length (messages (mdl (reached plain typed_while_waiting))) = 2 \<and>
   step plain (reached plain typed_while_waiting) (Event (TickMsg 2 0)) =
     Inr (reached plain (typed_while_waiting @ [Event (TickMsg 2 0)])) \<and>
   length (messages (mdl (reached plain (typed_while_waiting @ [Event (TickMsg 2 0)])))) = 2"
proof -
  have w: "waiting (mdl (reached plain typed_while_waiting))"
    by code_simp
  have i: "spinner_ID plain (spinner (mdl (reached plain typed_while_waiting))) = 2"
    by code_simp
  have k: "spinner_ID plain (fst (spinner_Update plain (TickMsg 2 0)
     (spinner (mdl (reached plain typed_while_waiting))))) = 2"
    by code_simp
  have l: "length (messages (mdl (reached plain typed_while_waiting))) = 2"
    by code_simp
  then have n: "messages (mdl (reached plain typed_while_waiting)) \<noteq> []"
    by auto
  have st: "step plain (reached plain typed_while_waiting) (Event (TickMsg 2 0)) =
     Inr (reached plain (typed_while_waiting @ [Event (TickMsg 2 0)]))"
    by code_simp
  from C8_chat_tick [OF w i [symmetric] k n] obtain m' where
    a: "step plain (reached plain typed_while_waiting) (Event (TickMsg 2 0)) =
          Inr ((reached plain typed_while_waiting)\<lparr>mdl := m'\<rparr>)" and
    b: "length (messages m') = length (messages (mdl (reached plain typed_while_waiting)))"
    by blast
  from a st have "reached plain (typed_while_waiting @ [Event (TickMsg 2 0)]) =
      (reached plain typed_while_waiting)\<lparr>mdl := m'\<rparr>"
    by simp
  then have "mdl (reached plain (typed_while_waiting @ [Event (TickMsg 2 0)])) = m'"
    by simp
  with b l have "length (messages (mdl (reached plain (typed_while_waiting @ [Event (TickMsg 2 0)])))) = 2"
    by simp
  with w i k l st show ?thesis by simp
qed

text \<open>
  C8 as claimed fails for the input buffer: the tick branch calls \<open>m.textarea.Reset()\<close>,
  so the \<open>x\<close> typed while waiting is gone after the tick.
\<close>

theorem C8_input_buffer_cleared_counterexample:
  "run plain (initial_system plain) typed_while_waiting = Inr (reached plain typed_while_waiting) \<and>
   waiting (mdl (reached plain typed_while_waiting)) \<and>
   spinner_ID plain (spinner (mdl (reached plain typed_while_waiting))) = 2 \<and>
   textarea_Value plain (textarea (mdl (reached plain typed_while_waiting))) = ''x'' \<and>
   step plain (reached plain typed_while_waiting) (Event (TickMsg 2 0)) =
     Inr (reached plain (typed_while_waiting @ [Event (TickMsg 2 0)])) \<and>
   textarea_Value plain
     (textarea (mdl (reached plain (typed_while_waiting @ [Event (TickMsg 2 0)])))) = []"
proof -
  have ok: "\<not> isl (run plain (initial_system plain) typed_while_waiting)"
    by code_simp
  have "run plain (initial_system plain) typed_while_waiting = Inr (reached plain typed_while_waiting)"
    using ok by (rule reached_run)
  moreover have "waiting (mdl (reached plain typed_while_waiting))"
    by code_simp
  moreover have "spinner_ID plain (spinner (mdl (reached plain typed_while_waiting))) = 2"
    by code_simp
  moreover have "textarea_Value plain (textarea (mdl (reached plain typed_while_waiting))) = ''x''"
    by code_simp
  moreover have "step plain (reached plain typed_while_waiting) (Event (TickMsg 2 0)) =
     Inr (reached plain (typed_while_waiting @ [Event (TickMsg 2 0)]))"
    by code_simp
  moreover have "textarea_Value plain
     (textarea (mdl (reached plain (typed_while_waiting @ [Event (TickMsg 2 0)])))) = []"
    by code_simp
  ultimately show ?thesis by simp
qed

section \<open>Completed turns\<close>











lemma step_in_turn_step: "step_in_turn E s a = Inr s' \<Longrightarrow> step E s a = Inr s'"
  by (simp add: step_in_turn_def split: if_splits)

lemma run_in_turn_run: "run_in_turn E s as = Inr s' \<Longrightarrow> run E s as = Inr s'"
  by (induction as arbitrary: s) (auto split: sum.splits dest: step_in_turn_step)






end
